theory Spec2Isabelle
  imports Main "HOL-Library.Log_Nat" "HOL-Library.Sublist"
begin

section \<open>Data model\<close>

text \<open>
  A measurement, as \<^verbatim>\<open>collect_data\<close> of \<^verbatim>\<open>wifi_mapper.py\<close> builds it and
  \<^verbatim>\<open>wifi_visualizer.py\<close> reads it back from the JSON file: a dict with the keys
  \<^verbatim>\<open>timestamp\<close>, \<^verbatim>\<open>signal_dbm\<close>, \<^verbatim>\<open>x\<close>, \<^verbatim>\<open>y\<close> and \<^verbatim>\<open>room\<close>.
  The signal is a Python int (unbounded). The coordinates are Python numbers (the floats
  that \<^verbatim>\<open>get_manual_position\<close> reads, or the int 0 of its fallback); a number is
  written as the rational it denotes. \<^verbatim>\<open>room\<close> is a string or \<^verbatim>\<open>None\<close>.
\<close>

record sample =
  timestamp :: string
  signal_dbm :: int
  x :: rat
  y :: rat
  room :: "string option"

text \<open>
  Exceptions that the modelled code lets escape; \<open>LibraryError\<close> stands for any
  exception raised inside numpy, scipy or matplotlib.
\<close>

datatype py_error = ZeroDivisionError | OverflowError | JSONDecodeError | LibraryError

section \<open>Coverage analysis (\<^verbatim>\<open>analyze_dead_zones\<close>, wifi\_visualizer.py)\<close>

text \<open>
  Lines 199 and 200:
  \<^verbatim>\<open>dead_zones = [point for point in data if point['signal_dbm'] < threshold]\<close>
  \<^verbatim>\<open>good_zones = [point for point in data if point['signal_dbm'] >= -60]\<close>
\<close>

definition dead_zones :: "sample list \<Rightarrow> int \<Rightarrow> sample list" where
  "dead_zones data threshold = filter (\<lambda>point. signal_dbm point < threshold) data"

definition good_zones :: "sample list \<Rightarrow> sample list" where
  "good_zones data = filter (\<lambda>point. signal_dbm point \<ge> - 60) data"

text \<open>
  Lines 203 to 207 print one count per quality band; each count is the length of a list
  comprehension over \<^verbatim>\<open>data\<close> with the band's condition on \<^verbatim>\<open>p['signal_dbm']\<close>.
  \<open>in_band\<close> holds the five conditions in the order of the five lines and
  \<open>band_label\<close> the words the lines print before the parenthesis.
\<close>

datatype band = Excellent | Good | Fair | Poor | VeryPoor

fun in_band :: "band \<Rightarrow> int \<Rightarrow> bool" where
  "in_band Excellent s = (s \<ge> - 50)"
| "in_band Good s = (- 60 \<le> s \<and> s < - 50)"
| "in_band Fair s = (- 70 \<le> s \<and> s < - 60)"
| "in_band Poor s = (- 80 \<le> s \<and> s < - 70)"
| "in_band VeryPoor s = (s < - 80)"

fun band_label :: "band \<Rightarrow> string" where
  "band_label Excellent = ''Excellent''"
| "band_label Good = ''Good''"
| "band_label Fair = ''Fair''"
| "band_label Poor = ''Poor''"
| "band_label VeryPoor = ''Very Poor''"

definition band_count :: "band \<Rightarrow> sample list \<Rightarrow> nat" where
  "band_count b data = length (filter (\<lambda>p. in_band b (signal_dbm p)) data)"

text \<open>
  Python's \<^verbatim>\<open>sorted(xs, key=k, reverse=True)\<close>: a stable sort into descending key
  order in which elements with equal keys keep their original relative order. That is the
  stable ascending sort on the negated key.
\<close>

definition sorted_reverse :: "('a \<Rightarrow> int) \<Rightarrow> 'a list \<Rightarrow> 'a list" where
  "sorted_reverse k xs = sort_key (\<lambda>v. - k v) xs"

text \<open>
  Lines 218 to 225, the best-coverage report: the entries the loop prints, in order.
  \<^verbatim>\<open>if good_zones:\<close>
  \<^verbatim>\<open>    good_zones_sorted = sorted(good_zones, key=lambda x: x['signal_dbm'], reverse=True)[:3]\<close>
  With no good zone nothing is printed.
\<close>

definition good_zones_sorted :: "sample list \<Rightarrow> sample list" where
  "good_zones_sorted data =
     (let good = good_zones data
      in if good \<noteq> [] then take 3 (sorted_reverse signal_dbm good) else [])"

section \<open>Quality label of the collection phase (\<^verbatim>\<open>collect_data\<close>, wifi\_mapper.py)\<close>

text \<open>Lines 160 to 167: the \<^verbatim>\<open>if/elif/else\<close> chain that sets \<^verbatim>\<open>quality\<close>.\<close>

definition quality_label :: "int \<Rightarrow> string" where
  "quality_label signal =
     (if signal \<ge> - 50 then ''Excellent''
      else if signal \<ge> - 60 then ''Good''
      else if signal \<ge> - 70 then ''Fair''
      else ''Poor'')"

text \<open>
  The band function of the specification (section 4.2), in its words: half-open interval
  thresholds, highest band first. The source has no such function; it is compared with
  the five conditions of the source below.
\<close>

definition spec_band :: "int \<Rightarrow> band" where
  "spec_band s =
     (if s \<ge> - 50 then Excellent
      else if - 60 \<le> s then Good
      else if - 70 \<le> s then Fair
      else if - 80 \<le> s then Poor
      else VeryPoor)"

section \<open>Loading the dataset and the early exit (\<^verbatim>\<open>load_data\<close>, \<^verbatim>\<open>main\<close>, wifi\_visualizer.py)\<close>

text \<open>
  What a run does that is visible from outside: lines printed to standard output, and
  image files written by \<^verbatim>\<open>plt.savefig\<close>.
\<close>

datatype event = Print string | SaveFig string

text \<open>
  The file system maps a path to the file there, if any. A file either decodes to a list
  of samples or makes \<^verbatim>\<open>json.load\<close> raise.
\<close>

datatype json_file = Json "sample list" | Malformed

type_synonym file_system = "string \<Rightarrow> json_file option"

text \<open>
  Lines 14 to 28. The result is what was printed, and either the exception that escaped
  or the value returned (\<open>None\<close> for Python's \<^verbatim>\<open>None\<close>).
\<close>

definition load_data :: "file_system \<Rightarrow> string \<Rightarrow> event list \<times> (py_error + sample list option)" where
  "load_data fs data_file =
     (case fs data_file of
        None \<Rightarrow>
          ([Print (''Error: '' @ data_file @ '' not found.''),
            Print ''Run wifi_mapper.py first to collect data.''], Inr None)
      | Some Malformed \<Rightarrow> ([], Inl JSONDecodeError)
      | Some (Json data) \<Rightarrow>
          if length data = 0 then ([Print ''No data points found in file.''], Inr None)
          else ([], Inr (Some data)))"

text \<open>The parsed command line of lines 233 to 239.\<close>

record args =
  arg_data :: string
  arg_output :: string
  arg_3d :: bool
  arg_threshold :: int

text \<open>
  Lines 241 to 257. After the \<^verbatim>\<open>None\<close> check \<^verbatim>\<open>main\<close> calls
  \<^verbatim>\<open>analyze_dead_zones\<close>, \<^verbatim>\<open>create_heatmap\<close> and, on request,
  \<^verbatim>\<open>create_3d_visualization\<close>, and prints two closing lines. Those steps format
  floats and run numpy, scipy and matplotlib; what they print and save, and the exception
  that may escape them, is the parameter \<open>visualize\<close>. The result of \<open>main\<close> is the
  trace of the run and the exception that ended it, if any.
\<close>

definition main :: "file_system \<Rightarrow> args \<Rightarrow> (sample list \<Rightarrow> args \<Rightarrow> event list \<times> py_error option)
    \<Rightarrow> event list \<times> py_error option" where
  "main fs a visualize =
     (case load_data fs (arg_data a) of
        (out, Inl e) \<Rightarrow> (out, Some e)
      | (out, Inr None) \<Rightarrow> (out, None)
      | (out, Inr (Some data)) \<Rightarrow>
          (case visualize data a of (out', r) \<Rightarrow> (out @ out', r)))"

fun is_print :: "event \<Rightarrow> bool" where
  "is_print (Print m) = True"
| "is_print (SaveFig f) = False"

text \<open>The defaults of the command line, lines 234 to 237.\<close>

definition default_args :: args where
  "default_args =
     \<lparr>arg_data = ''wifi_data.json'', arg_output = ''wifi_heatmap.png'', arg_3d = False,
      arg_threshold = - 75\<rparr>"

section \<open>Signal probe (\<^verbatim>\<open>get_wifi_signal_strength\<close>, wifi\_mapper.py)\<close>

subsection \<open>Python float arithmetic\<close>

text \<open>
  A Python float is an IEEE 754 binary64 number. A finite one is written as the rational
  it denotes; \<open>None\<close> stands for an infinity. \<open>binary64 r\<close> is the float nearest to
  the exact value \<open>r\<close>, ties going to the even significand: 53 significant bits from
  the binade of \<open>r\<close>, a fixed quantum of \<open>2\<^sup>-\<^sup>1\<^sup>0\<^sup>7\<^sup>4\<close> below \<open>2\<^sup>-\<^sup>1\<^sup>0\<^sup>2\<^sup>2\<close>, and
  overflow when the rounded value reaches \<open>2\<^sup>1\<^sup>0\<^sup>2\<^sup>4\<close>.
\<close>

definition pow2 :: "int \<Rightarrow> rat" where
  "pow2 e = (if 0 \<le> e then 2 ^ nat e else 1 / 2 ^ nat (- e))"

text \<open>The exponent \<open>e\<close> with \<open>2\<^sup>e \<le> |r| < 2\<^sup>e\<^sup>+\<^sup>1\<close>, for \<open>r\<close> other than 0.\<close>

definition binade :: "rat \<Rightarrow> int" where
  "binade r =
     (case quotient_of \<bar>r\<bar> of (p, q) \<Rightarrow>
        let d = bitlen p - bitlen q in if pow2 d \<le> \<bar>r\<bar> then d else d - 1)"

definition round_half_even :: "rat \<Rightarrow> int" where
  "round_half_even r =
     (let f = \<lfloor>r\<rfloor>; d = r - of_int f
      in if d < 1 / 2 then f
         else if 1 / 2 < d then f + 1
         else if even f then f else f + 1)"

definition binary64 :: "rat \<Rightarrow> rat option" where
  "binary64 r =
     (if r = 0 then Some 0
      else let e = max (binade r) (- 1022);
               q = pow2 (e - 52);
               v = of_int (round_half_even (r / q)) * q
           in if \<bar>v\<bar> < pow2 1024 then Some v else None)"

text \<open>\<^verbatim>\<open>int(f)\<close> of a finite float: truncation towards zero.\<close>

definition py_int :: "rat \<Rightarrow> int" where
  "py_int f = (if 0 \<le> f then \<lfloor>f\<rfloor> else \<lceil>f\<rceil>)"

subsection \<open>The conversion to dBm\<close>

text \<open>
  Lines 39 and 40, and again lines 74 and 75 with \<^verbatim>\<open>percentage\<close> and \<^verbatim>\<open>100\<close>:
  \<^verbatim>\<open>signal_dbm = -100 + (quality / max_quality) * 70\<close>
  \<^verbatim>\<open>return int(signal_dbm)\<close>
  The operands are non-negative ints (the regular expressions match digits only).
  \<^verbatim>\<open>/\<close> is true division: it raises \<^verbatim>\<open>ZeroDivisionError\<close> on a zero divisor and
  \<^verbatim>\<open>OverflowError\<close> when the quotient is too large for a float, and rounds the exact
  quotient otherwise. The product and the sum are float operations, each rounded; once
  one of them overflows the value is infinite and \<^verbatim>\<open>int\<close> raises
  \<^verbatim>\<open>OverflowError\<close>.
\<close>

definition approx_dbm :: "nat \<Rightarrow> nat \<Rightarrow> py_error + int" where
  "approx_dbm quality max_quality =
     (if max_quality = 0 then Inl ZeroDivisionError
      else case binary64 (of_nat quality / of_nat max_quality) of
             None \<Rightarrow> Inl OverflowError
           | Some ratio \<Rightarrow>
               (case binary64 (ratio * 70) of
                  None \<Rightarrow> Inl OverflowError
                | Some scaled \<Rightarrow>
                    (case binary64 (- 100 + scaled) of
                       None \<Rightarrow> Inl OverflowError
                     | Some signal \<Rightarrow> Inr (py_int signal))))"

text \<open>
  The fixed linear mapping of the specification, \<open>-100 + (pct/100)*70\<close> truncated to an
  integer, in exact arithmetic.
\<close>

definition spec_mapping :: "nat \<Rightarrow> int" where
  "spec_mapping pct = py_int (- 100 + (of_nat pct / 100) * 70)"

subsection \<open>The three platform utilities\<close>

text \<open>
  Each utility is run by \<^verbatim>\<open>subprocess.run\<close>; \<open>Unavailable\<close> is the case that
  the call raises \<^verbatim>\<open>TimeoutExpired\<close> or \<^verbatim>\<open>FileNotFoundError\<close>, which the
  function catches, and \<open>Stdout\<close> carries what \<^verbatim>\<open>re.search\<close> finds in the output:
  the captured groups converted by \<^verbatim>\<open>int\<close>, or \<open>None\<close> without a match.
\<close>

datatype 'a run = Unavailable | Stdout 'a

record iwconfig_output =
  signal_level :: "int option"
  link_quality :: "(nat \<times> nat) option"

text \<open>
  One \<^verbatim>\<open>try\<close> block each. The result \<open>None\<close> means that the block falls through
  to the code after it; \<open>Some\<close> carries the value returned or the exception that escapes.
\<close>

definition try_iwconfig :: "iwconfig_output run \<Rightarrow> (py_error + int) option" where
  "try_iwconfig r =
     (case r of
        Unavailable \<Rightarrow> None
      | Stdout out \<Rightarrow>
          (case signal_level out of
             Some level \<Rightarrow> Some (Inr level)
           | None \<Rightarrow>
               (case link_quality out of
                  Some (quality, max_quality) \<Rightarrow> Some (approx_dbm quality max_quality)
                | None \<Rightarrow> None)))"

definition try_airport :: "int option run \<Rightarrow> (py_error + int) option" where
  "try_airport r =
     (case r of
        Unavailable \<Rightarrow> None
      | Stdout None \<Rightarrow> None
      | Stdout (Some rssi) \<Rightarrow> Some (Inr rssi))"

definition try_netsh :: "nat option run \<Rightarrow> (py_error + int) option" where
  "try_netsh r =
     (case r of
        Unavailable \<Rightarrow> None
      | Stdout None \<Rightarrow> None
      | Stdout (Some percentage) \<Rightarrow> Some (approx_dbm percentage 100))"

text \<open>
  Lines 14 to 80: the three blocks in sequence, the first that returns or raises decides,
  and \<^verbatim>\<open>return None\<close> at the end.
\<close>

definition get_wifi_signal_strength ::
    "iwconfig_output run \<Rightarrow> int option run \<Rightarrow> nat option run \<Rightarrow> py_error + int option" where
  "get_wifi_signal_strength iwconfig airport netsh =
     (case try_iwconfig iwconfig of
        Some r \<Rightarrow> map_sum id Some r
      | None \<Rightarrow>
          (case try_airport airport of
             Some r \<Rightarrow> map_sum id Some r
           | None \<Rightarrow>
               (case try_netsh netsh of
                  Some r \<Rightarrow> map_sum id Some r
                | None \<Rightarrow> Inr None)))"

section \<open>Example datasets\<close>

text \<open>
  A survey of three rooms, \<open>(0,0,-40)\<close>, \<open>(5,0,-70)\<close> and \<open>(0,5,-55)\<close>, and one with
  repeated signal values.
\<close>

definition point :: "string \<Rightarrow> int \<Rightarrow> rat \<Rightarrow> rat \<Rightarrow> sample" where
  "point name s px py =
     \<lparr>timestamp = ''2024-01-01T12:00:00'', signal_dbm = s, x = px, y = py, room = Some name\<rparr>"

definition three_rooms :: "sample list" where
  "three_rooms = [point ''hall'' (- 40) 0 0, point ''garage'' (- 70) 5 0, point ''study'' (- 55) 0 5]"

definition tied_survey :: "sample list" where
  "tied_survey =
     [point ''a'' (- 55) 0 0, point ''b'' (- 40) 1 0, point ''c'' (- 55) 2 0,
      point ''d'' (- 77) 3 0, point ''e'' (- 40) 4 0, point ''f'' (- 58) 5 0,
      point ''g'' (- 90) 6 0]"

section \<open>Theorems\<close>

subsection \<open>Quality bands\<close>

lemma in_band_unique: "in_band b s \<Longrightarrow> in_band c s \<Longrightarrow> b = c"
  by (cases b; cases c; simp)

lemma in_band_total: "\<exists>b. in_band b s"
proof -
  consider "s \<ge> - 50" | "- 60 \<le> s \<and> s < - 50" | "- 70 \<le> s \<and> s < - 60"
    | "- 80 \<le> s \<and> s < - 70" | "s < - 80"
    by linarith
  then show ?thesis
  proof cases
    case 1 then have "in_band Excellent s" by simp then show ?thesis ..
  next
    case 2 then have "in_band Good s" by simp then show ?thesis ..
  next
    case 3 then have "in_band Fair s" by simp then show ?thesis ..
  next
    case 4 then have "in_band Poor s" by simp then show ?thesis ..
  next
    case 5 then have "in_band VeryPoor s" by simp then show ?thesis ..
  qed
qed

lemma band_count_Nil: "band_count b [] = 0"
  by (simp add: band_count_def)

lemma band_count_Cons:
  "band_count b (p # ps) = (if in_band b (signal_dbm p) then 1 else 0) + band_count b ps"
  by (simp add: band_count_def)

lemma band_indicators_sum:
  "(if in_band Excellent s then 1 else 0) + (if in_band Good s then 1 else 0)
   + (if in_band Fair s then 1 else 0) + (if in_band Poor s then 1 else 0)
   + (if in_band VeryPoor s then 1 else 0) = (1::nat)"
  by simp

lemma band_counts_sum:
  "band_count Excellent data + band_count Good data + band_count Fair data
   + band_count Poor data + band_count VeryPoor data = length data"
proof (induction data)
  case Nil
  show ?case by (simp add: band_count_Nil)
next
  case (Cons p ps)
  have "band_count Excellent (p # ps) + band_count Good (p # ps) + band_count Fair (p # ps)
        + band_count Poor (p # ps) + band_count VeryPoor (p # ps)
      = ((if in_band Excellent (signal_dbm p) then 1 else 0)
         + (if in_band Good (signal_dbm p) then 1 else 0)
         + (if in_band Fair (signal_dbm p) then 1 else 0)
         + (if in_band Poor (signal_dbm p) then 1 else 0)
         + (if in_band VeryPoor (signal_dbm p) then 1 else 0))
        + (band_count Excellent ps + band_count Good ps + band_count Fair ps
           + band_count Poor ps + band_count VeryPoor ps)"
    unfolding band_count_Cons by (simp only: ac_simps)
  also have "\<dots> = 1 + length ps"
    unfolding band_indicators_sum Cons.IH ..
  finally show ?case by simp
qed

lemma in_band_spec_band: "in_band b s = (spec_band s = b)"
  by (cases b) (auto simp: spec_band_def)

text \<open>
  C1. Every integer signal value satisfies exactly one of the five band conditions of the
  breakdown, namely the one that the band function of the specification returns. The
  thresholds are: Excellent from -50 up, Good from -60 up to but not including -50, Fair
  from -70 up to but not including -60, Poor from -80 up to but not including -70, Very
  Poor below -80. For every sample list the five counts of the breakdown, each taken over
  all samples, add up to the number of samples.
\<close>

theorem band_partition_and_counts:
  "(\<exists>!b. in_band b s)
   \<and> in_band b s = (spec_band s = b)
   \<and> in_band Excellent s = (s \<ge> - 50)
   \<and> in_band Good s = (- 60 \<le> s \<and> s < - 50)
   \<and> in_band Fair s = (- 70 \<le> s \<and> s < - 60)
   \<and> in_band Poor s = (- 80 \<le> s \<and> s < - 70)
   \<and> in_band VeryPoor s = (s < - 80)
   \<and> band_count Excellent data + band_count Good data + band_count Fair data
       + band_count Poor data + band_count VeryPoor data = length data"
proof -
  have "\<exists>!b. in_band b s"
    using in_band_total [of s] in_band_unique [of _ s] by blast
  then show ?thesis
    using band_counts_sum [of data] in_band_spec_band [of b s] by simp
qed

theorem band_partition_and_counts_witness:
  "(\<exists>!b. in_band b (- 51)) \<and> in_band Good (- 51) \<and> spec_band (- 51) = Good
   \<and> band_count Excellent three_rooms = 1 \<and> band_count Good three_rooms = 1
   \<and> band_count Fair three_rooms = 1 \<and> band_count Poor three_rooms = 0
   \<and> band_count VeryPoor three_rooms = 0 \<and> length three_rooms = 3
   \<and> band_count Excellent three_rooms + band_count Good three_rooms + band_count Fair three_rooms
       + band_count Poor three_rooms + band_count VeryPoor three_rooms = length three_rooms"
  using band_partition_and_counts [of "- 51" Good three_rooms]
  by (simp add: band_count_def three_rooms_def point_def)

subsection \<open>Dead zones and good zones\<close>

text \<open>
  C6. For every sample list and every threshold, the dead zones are exactly the samples
  whose signal is below the threshold and the good zones exactly the samples whose signal
  is at least -60, in their order in the list. The good zones are computed from the list
  alone, without the threshold. Both are sublists of the input.
\<close>

theorem dead_and_good_zones:
  "dead_zones data t = filter (\<lambda>p. signal_dbm p < t) data
   \<and> good_zones data = filter (\<lambda>p. signal_dbm p \<ge> - 60) data
   \<and> set (dead_zones data t) = {p. p \<in> set data \<and> signal_dbm p < t}
   \<and> set (good_zones data) = {p. p \<in> set data \<and> signal_dbm p \<ge> - 60}
   \<and> set (dead_zones data t) \<subseteq> set data
   \<and> set (good_zones data) \<subseteq> set data"
  by (auto simp: dead_zones_def good_zones_def)

theorem dead_and_good_zones_witness:
  "dead_zones tied_survey (- 75) = [point ''d'' (- 77) 3 0, point ''g'' (- 90) 6 0]
   \<and> good_zones tied_survey =
       [point ''a'' (- 55) 0 0, point ''b'' (- 40) 1 0, point ''c'' (- 55) 2 0,
        point ''e'' (- 40) 4 0, point ''f'' (- 58) 5 0]
   \<and> set (dead_zones tied_survey (- 75)) \<subseteq> set tied_survey
   \<and> set (good_zones tied_survey) \<subseteq> set tied_survey"
proof -
  have d: "dead_zones tied_survey (- 75) = [point ''d'' (- 77) 3 0, point ''g'' (- 90) 6 0]"
    by (simp add: dead_zones_def tied_survey_def point_def)
  have g: "good_zones tied_survey =
       [point ''a'' (- 55) 0 0, point ''b'' (- 40) 1 0, point ''c'' (- 55) 2 0,
        point ''e'' (- 40) 4 0, point ''f'' (- 58) 5 0]"
    by (simp add: good_zones_def tied_survey_def point_def)
  have s: "set (dead_zones tied_survey (- 75)) \<subseteq> set tied_survey
           \<and> set (good_zones tied_survey) \<subseteq> set tied_survey"
    using dead_and_good_zones [of tied_survey "- 75"] by blast
  from d g s show ?thesis by blast
qed

text \<open>
  C2, as stated: the dead zones for a lower threshold include the dead zones for a higher
  one. It fails for a sample at -77 dBm, which is a dead zone under -75 and none
  under -80.
\<close>

theorem lower_threshold_superset_counterexample:
  "(- 80 :: int) < - 75
   \<and> \<not> set (dead_zones [point ''d'' (- 77) 3 0] (- 75)) \<subseteq> set (dead_zones [point ''d'' (- 77) 3 0] (- 80))"
  by (simp add: dead_zones_def point_def)

text \<open>
  C2, amended. For thresholds \<open>t' < t\<close> the dead zones under the lower threshold \<open>t'\<close>
  are among the dead zones under \<open>t\<close>: they are the dead zones under \<open>t\<close> whose
  signal is also below \<open>t'\<close>. Lowering the threshold never enlarges the dead-zone set,
  raising it never shrinks it.
\<close>

theorem dead_zones_threshold_monotone:
  "t' < t \<Longrightarrow>
     set (dead_zones data t') \<subseteq> set (dead_zones data t)
     \<and> dead_zones data t' = filter (\<lambda>p. signal_dbm p < t') (dead_zones data t)
     \<and> length (dead_zones data t') \<le> length (dead_zones data t)"
proof -
  assume lt: "t' < t"
  have eq: "dead_zones data t' = filter (\<lambda>p. signal_dbm p < t') (dead_zones data t)"
    unfolding dead_zones_def filter_filter
    by (rule filter_cong) (use lt in auto)
  have "length (filter (\<lambda>p. signal_dbm p < t') (dead_zones data t)) \<le> length (dead_zones data t)"
    by (rule length_filter_le)
  with eq show ?thesis by (auto simp: dead_zones_def)
qed

theorem dead_zones_threshold_monotone_witness:
  "(- 80 :: int) < - 75
   \<and> set (dead_zones tied_survey (- 80)) \<subseteq> set (dead_zones tied_survey (- 75))
   \<and> dead_zones tied_survey (- 80) = [point ''g'' (- 90) 6 0]
   \<and> dead_zones tied_survey (- 75) = [point ''d'' (- 77) 3 0, point ''g'' (- 90) 6 0]"
proof -
  have h: "(- 80 :: int) < - 75" by simp
  show ?thesis
    using dead_zones_threshold_monotone [OF h, of tied_survey]
    by (simp add: dead_zones_def tied_survey_def point_def)
qed

subsection \<open>The two labellings\<close>

text \<open>
  C10. The collection phase labels a signal with one of four words and the breakdown of
  the visualization phase has five bands. Below -80 the collection phase says Poor where
  the breakdown counts the value as Very Poor; from -80 up the label is the name of the
  band that counts the value. So the two labellings are different functions, and they
  differ exactly below -80.
\<close>

theorem collection_label_versus_bands:
  "(s < - 80 \<longrightarrow> quality_label s = ''Poor'' \<and> in_band VeryPoor s \<and> \<not> in_band Poor s
       \<and> quality_label s \<noteq> band_label VeryPoor)
   \<and> (- 80 \<le> s \<and> in_band b s \<longrightarrow> quality_label s = band_label b)
   \<and> (in_band b s \<longrightarrow> (quality_label s = band_label b) = (- 80 \<le> s))
   \<and> (s < - 70 \<longrightarrow> quality_label s = ''Poor'')
   \<and> quality_label s \<in> {''Excellent'', ''Good'', ''Fair'', ''Poor''}
   \<and> quality_label \<noteq> (\<lambda>v. band_label (spec_band v))"
proof -
  have "quality_label (- 81) \<noteq> band_label (spec_band (- 81))"
    by (simp add: quality_label_def spec_band_def)
  then have ne: "quality_label \<noteq> (\<lambda>v. band_label (spec_band v))"
    by metis
  have rest: "(s < - 80 \<longrightarrow> quality_label s = ''Poor'' \<and> in_band VeryPoor s \<and> \<not> in_band Poor s
       \<and> quality_label s \<noteq> band_label VeryPoor)
   \<and> (- 80 \<le> s \<and> in_band b s \<longrightarrow> quality_label s = band_label b)
   \<and> (in_band b s \<longrightarrow> (quality_label s = band_label b) = (- 80 \<le> s))
   \<and> (s < - 70 \<longrightarrow> quality_label s = ''Poor'')
   \<and> quality_label s \<in> {''Excellent'', ''Good'', ''Fair'', ''Poor''}"
    by (cases b) (auto simp: quality_label_def)
  from rest ne show ?thesis by blast
qed

theorem collection_label_versus_bands_witness:
  "(- 90 :: int) < - 80 \<and> quality_label (- 90) = ''Poor'' \<and> in_band VeryPoor (- 90)
   \<and> band_label VeryPoor = ''Very Poor''
   \<and> (- 80 :: int) \<le> - 75 \<and> in_band Poor (- 75) \<and> quality_label (- 75) = band_label Poor"
  using collection_label_versus_bands [of "- 90" VeryPoor] collection_label_versus_bands [of "- 75" Poor]
  by simp

subsection \<open>The best-coverage report\<close>

lemma set_sorted_reverse: "set (sorted_reverse k xs) = set xs"
  by (simp add: sorted_reverse_def)

lemma length_sorted_reverse: "length (sorted_reverse k xs) = length xs"
  by (simp add: sorted_reverse_def)

lemma sorted_reverse_descending: "sorted_wrt (\<lambda>a b. k a \<ge> k b) (sorted_reverse k xs)"
proof -
  have "sorted (map (\<lambda>v. - k v) (sorted_reverse k xs))"
    unfolding sorted_reverse_def by (rule sorted_sort_key)
  then show ?thesis by (simp add: sorted_map)
qed

lemma sorted_reverse_stable:
  "filter (\<lambda>v. k v = c) (sorted_reverse k xs) = filter (\<lambda>v. k v = c) xs"
proof -
  have "filter (\<lambda>v. - k v = - c) (sort_key (\<lambda>v. - k v) xs) = filter (\<lambda>v. - k v = - c) xs"
    by (rule sort_key_stable)
  then show ?thesis by (simp add: sorted_reverse_def)
qed

lemma good_zones_sorted_eq:
  "good_zones_sorted data = take 3 (sorted_reverse signal_dbm (good_zones data))"
  by (simp add: good_zones_sorted_def Let_def sorted_reverse_def)

lemma good_zones_sorted_set: "set (good_zones_sorted data) \<subseteq> set (good_zones data)"
  unfolding good_zones_sorted_eq using set_take_subset [of 3 "sorted_reverse signal_dbm (good_zones data)"]
  by (simp add: set_sorted_reverse)

lemma good_zones_sorted_ties:
  "prefix (filter (\<lambda>p. signal_dbm p = c) (good_zones_sorted data))
          (filter (\<lambda>p. signal_dbm p = c) data)"
proof -
  have "prefix (filter (\<lambda>p. signal_dbm p = c) (good_zones_sorted data))
               (filter (\<lambda>p. signal_dbm p = c) (sorted_reverse signal_dbm (good_zones data)))"
    unfolding good_zones_sorted_eq by (rule filter_mono_prefix) (rule take_is_prefix)
  also have "filter (\<lambda>p. signal_dbm p = c) (sorted_reverse signal_dbm (good_zones data))
             = filter (\<lambda>p. signal_dbm p = c) (good_zones data)"
    by (rule sorted_reverse_stable)
  also have "\<dots> = filter (\<lambda>p. signal_dbm p = c \<and> - 60 \<le> c) data"
    unfolding good_zones_def filter_filter by (rule filter_cong) auto
  also have "prefix \<dots> (filter (\<lambda>p. signal_dbm p = c) data)"
    by (cases "- 60 \<le> c") simp_all
  finally show ?thesis .
qed

text \<open>
  C5. For every sample list the best-coverage report has at most three entries (as many
  as there are good zones, up to three); every entry is a sample of the input with a signal
  of at least -60; the entries are in descending order of signal; and for every signal
  value the entries with that value are the first samples of the input with that
  value, in input order, so ties keep their original order.
\<close>

theorem best_coverage_report:
  "length (good_zones_sorted data) \<le> 3
   \<and> length (good_zones_sorted data) = min 3 (length (good_zones data))
   \<and> set (good_zones_sorted data) \<subseteq> set (good_zones data)
   \<and> (\<forall>p \<in> set (good_zones_sorted data). p \<in> set data \<and> signal_dbm p \<ge> - 60)
   \<and> sorted_wrt (\<lambda>p q. signal_dbm p \<ge> signal_dbm q) (good_zones_sorted data)
   \<and> (\<forall>c. prefix (filter (\<lambda>p. signal_dbm p = c) (good_zones_sorted data))
                   (filter (\<lambda>p. signal_dbm p = c) data))"
proof -
  have len: "length (good_zones_sorted data) = min 3 (length (good_zones data))"
    unfolding good_zones_sorted_eq by (simp add: length_sorted_reverse min.commute)
  have mem: "\<forall>p \<in> set (good_zones_sorted data). p \<in> set data \<and> signal_dbm p \<ge> - 60"
    using good_zones_sorted_set [of data] by (auto simp: good_zones_def)
  have srt: "sorted_wrt (\<lambda>p q. signal_dbm p \<ge> signal_dbm q) (good_zones_sorted data)"
    unfolding good_zones_sorted_eq by (rule sorted_wrt_take) (rule sorted_reverse_descending)
  from len mem srt good_zones_sorted_set [of data] good_zones_sorted_ties [of _ data]
  show ?thesis by simp
qed

theorem best_coverage_report_witness:
  "good_zones_sorted tied_survey = [point ''b'' (- 40) 1 0, point ''e'' (- 40) 4 0, point ''a'' (- 55) 0 0]
   \<and> length (good_zones_sorted tied_survey) \<le> 3
   \<and> sorted_wrt (\<lambda>p q. signal_dbm p \<ge> signal_dbm q) (good_zones_sorted tied_survey)
   \<and> prefix (filter (\<lambda>p. signal_dbm p = - 40) (good_zones_sorted tied_survey))
             (filter (\<lambda>p. signal_dbm p = - 40) tied_survey)
   \<and> filter (\<lambda>p. signal_dbm p = - 40) tied_survey = [point ''b'' (- 40) 1 0, point ''e'' (- 40) 4 0]"
proof -
  have r: "good_zones_sorted tied_survey = [point ''b'' (- 40) 1 0, point ''e'' (- 40) 4 0, point ''a'' (- 55) 0 0]"
    by (simp add: good_zones_sorted_def good_zones_def sorted_reverse_def tied_survey_def point_def)
  have f: "filter (\<lambda>p. signal_dbm p = - 40) tied_survey = [point ''b'' (- 40) 1 0, point ''e'' (- 40) 4 0]"
    by (simp add: tied_survey_def point_def)
  from best_coverage_report [of tied_survey] r f show ?thesis by blast
qed

subsection \<open>Missing and empty dataset files\<close>

text \<open>
  C9. When the dataset file is absent, \<open>load_data\<close> prints the two lines of the
  not-found message and returns \<open>None\<close>; when it holds an empty list, it prints the
  no-data line and returns \<open>None\<close>. In both cases \<open>main\<close> returns at once without an
  exception: the trace of the run is the message alone, every event in it is a printed
  line, and no image is saved, whatever the later steps would have done.
\<close>

theorem load_failure_is_fatal:
  "(fs f = None \<longrightarrow>
      load_data fs f = ([Print (''Error: '' @ f @ '' not found.''),
                         Print ''Run wifi_mapper.py first to collect data.''], Inr None))
   \<and> (fs f = Some (Json []) \<longrightarrow>
      load_data fs f = ([Print ''No data points found in file.''], Inr None))
   \<and> (arg_data a = f \<and> (fs f = None \<or> fs f = Some (Json [])) \<longrightarrow>
      main fs a visualize = (fst (load_data fs f), None)
      \<and> fst (main fs a visualize) \<noteq> []
      \<and> list_all is_print (fst (main fs a visualize))
      \<and> (\<forall>img. SaveFig img \<notin> set (fst (main fs a visualize))))"
  by (auto simp: load_data_def main_def)

theorem load_failure_is_fatal_witness:
  "main (\<lambda>f. None) default_args (\<lambda>d a. ([SaveFig (arg_output a)], None))
     = ([Print ''Error: wifi_data.json not found.'',
         Print ''Run wifi_mapper.py first to collect data.''], None)
   \<and> main ((\<lambda>f. None)(''wifi_data.json'' \<mapsto> Json [])) default_args
          (\<lambda>d a. ([SaveFig (arg_output a)], None))
     = ([Print ''No data points found in file.''], None)"
proof -
  have d: "arg_data default_args = ''wifi_data.json''" by (simp add: default_args_def)
  have "main (\<lambda>f. None) default_args (\<lambda>d a. ([SaveFig (arg_output a)], None))
     = ([Print ''Error: wifi_data.json not found.'',
         Print ''Run wifi_mapper.py first to collect data.''], None)"
    using load_failure_is_fatal [of "\<lambda>f. None" "''wifi_data.json''" default_args
        "\<lambda>d a. ([SaveFig (arg_output a)], None)"] d
    by simp
  moreover have "main ((\<lambda>f. None)(''wifi_data.json'' \<mapsto> Json [])) default_args
          (\<lambda>d a. ([SaveFig (arg_output a)], None))
     = ([Print ''No data points found in file.''], None)"
    using load_failure_is_fatal [of "(\<lambda>f. None)(''wifi_data.json'' \<mapsto> Json [])"
        "''wifi_data.json''" default_args "\<lambda>d a. ([SaveFig (arg_output a)], None)"] d
    by simp
  ultimately show ?thesis by (rule conjI)
qed

text \<open>With a file that holds samples, the later steps run on them.\<close>

lemma main_loaded:
  "fs (arg_data a) = Some (Json d) \<Longrightarrow> d \<noteq> [] \<Longrightarrow> main fs a visualize = visualize d a"
  by (cases "visualize d a") (simp add: main_def load_data_def)

subsection \<open>Rounding to binary64\<close>

text \<open>
  The model of rounding is checked against its specification: \<open>binade\<close> finds the
  power of two below the magnitude, \<open>round_half_even\<close> is within one half of its
  argument, and in the normal range \<open>binary64\<close> returns a value within half a unit in
  the last place, that is, with a relative error of at most \<open>2\<^sup>-\<^sup>5\<^sup>3\<close>.
\<close>

lemma pow2_power_int: "pow2 e = power_int 2 e"
  by (simp add: pow2_def power_int_def power_one_over inverse_eq_divide)

lemma pow2_pos: "0 < pow2 e"
  by (simp add: pow2_power_int)

lemma pow2_add: "pow2 (a + b) = pow2 a * pow2 b"
  by (simp add: pow2_power_int power_int_add)

lemma pow2_mono: "a \<le> b \<Longrightarrow> pow2 a \<le> pow2 b"
  by (simp add: pow2_power_int power_int_increasing)

lemma bitlen_pow2_bounds:
  assumes "0 < p"
  shows "pow2 (bitlen p - 1) \<le> of_int p" and "of_int p < pow2 (bitlen p)"
proof -
  from assms have b: "2 ^ nat (bitlen p - 1) \<le> p" "p < 2 ^ nat (bitlen p)"
    using bitlen_bounds [of p] by auto
  from assms have pos: "1 \<le> bitlen p"
    using bitlen_eq_zero_iff [of p] bitlen_nonneg [of p] by linarith
  have "(of_int (2 ^ nat (bitlen p - 1)) :: rat) \<le> of_int p"
    using b(1) by (simp only: of_int_le_iff)
  then show "pow2 (bitlen p - 1) \<le> of_int p"
    using pos by (simp add: pow2_def)
  have "(of_int p :: rat) < of_int (2 ^ nat (bitlen p))"
    using b(2) by (simp only: of_int_less_iff)
  then show "of_int p < pow2 (bitlen p)"
    using pos by (simp add: pow2_def)
qed

lemma binade_bounds:
  assumes "r \<noteq> 0"
  shows "pow2 (binade r) \<le> \<bar>r\<bar> \<and> \<bar>r\<bar> < pow2 (binade r + 1)"
proof -
  obtain p q where pq: "quotient_of \<bar>r\<bar> = (p, q)" by (cases "quotient_of \<bar>r\<bar>")
  have q: "0 < q" using pq quotient_of_denom_pos by blast
  have r: "\<bar>r\<bar> = of_int p / of_int q" using pq by (rule quotient_of_div)
  have "0 < \<bar>r\<bar>" using assms by simp
  then have p: "0 < p" using r q by (simp add: zero_less_divide_iff)
  define d where "d = bitlen p - bitlen q"
  have qr: "(0::rat) < of_int q" using q by simp
  have up: "\<bar>r\<bar> < pow2 (d + 1)"
  proof -
    have "of_int p < pow2 (bitlen p)" using p by (rule bitlen_pow2_bounds)
    also have "pow2 (bitlen p) = pow2 (d + 1) * pow2 (bitlen q - 1)"
      by (simp add: d_def pow2_add [symmetric])
    also have "\<dots> \<le> pow2 (d + 1) * of_int q"
      using bitlen_pow2_bounds(1) [OF q] pow2_pos [of "d + 1"] by simp
    finally show ?thesis using qr by (simp add: r pos_divide_less_eq)
  qed
  have lo: "pow2 (d - 1) < \<bar>r\<bar>"
  proof -
    have "pow2 (d - 1) * of_int q < pow2 (d - 1) * pow2 (bitlen q)"
      using bitlen_pow2_bounds(2) [OF q] pow2_pos [of "d - 1"] by simp
    also have "\<dots> = pow2 (bitlen p - 1)"
      by (simp add: d_def pow2_add [symmetric])
    also have "\<dots> \<le> of_int p" using p by (rule bitlen_pow2_bounds)
    finally show ?thesis using qr by (simp add: r pos_less_divide_eq)
  qed
  have b: "binade r = (if pow2 d \<le> \<bar>r\<bar> then d else d - 1)"
    by (simp add: binade_def pq d_def Let_def)
  show ?thesis
  proof (cases "pow2 d \<le> \<bar>r\<bar>")
    case True
    with b up show ?thesis by simp
  next
    case False
    with b lo show ?thesis by simp
  qed
qed

lemma binade_unique:
  assumes "r \<noteq> 0" "pow2 e \<le> \<bar>r\<bar>" "\<bar>r\<bar> < pow2 (e + 1)"
  shows "binade r = e"
proof (rule ccontr)
  assume ne: "binade r \<noteq> e"
  note b = binade_bounds [OF assms(1)]
  show False
  proof (cases "binade r < e")
    case True
    then have "pow2 (binade r + 1) \<le> pow2 e" by (intro pow2_mono) simp
    with b assms(2) show False by linarith
  next
    case False
    with ne have "e + 1 \<le> binade r" by simp
    then have "pow2 (e + 1) \<le> pow2 (binade r)" by (rule pow2_mono)
    with b assms(3) show False by linarith
  qed
qed

lemma round_half_even_near: "\<bar>of_int (round_half_even r) - r\<bar> \<le> 1 / 2"
proof -
  have "of_int \<lfloor>r\<rfloor> \<le> r" "r < of_int \<lfloor>r\<rfloor> + 1" by linarith+
  then show ?thesis
    by (auto simp: round_half_even_def Let_def abs_le_iff)
qed


lemma binary64_eval:
  assumes "r \<noteq> 0" "- 1022 \<le> e" "e \<le> 1022" "pow2 e \<le> \<bar>r\<bar>" "\<bar>r\<bar> < pow2 (e + 1)"
  shows "binary64 r = Some (of_int (round_half_even (r / pow2 (e - 52))) * pow2 (e - 52))"
    and "\<bar>of_int (round_half_even (r / pow2 (e - 52))) * pow2 (e - 52) - r\<bar> \<le> pow2 (e - 53)"
proof -
  define q where "q = pow2 (e - 52)"
  define v where "v = of_int (round_half_even (r / q)) * q"
  have q: "0 < q" unfolding q_def by (rule pow2_pos)
  have b: "binade r = e" using assms(1,4,5) by (rule binade_unique)
  have "\<bar>of_int (round_half_even (r / q)) - r / q\<bar> * q \<le> (1 / 2) * q"
    using round_half_even_near [of "r / q"] q by (intro mult_right_mono) simp_all
  moreover have "\<bar>of_int (round_half_even (r / q)) - r / q\<bar> * q = \<bar>v - r\<bar>"
  proof -
    have "\<bar>of_int (round_half_even (r / q)) - r / q\<bar> * q
          = \<bar>(of_int (round_half_even (r / q)) - r / q) * q\<bar>"
      using q by (simp add: abs_mult)
    also have "(of_int (round_half_even (r / q)) - r / q) * q = v - r"
      using q by (simp add: v_def left_diff_distrib)
    finally show ?thesis .
  qed
  moreover have "(1 / 2) * q = pow2 (e - 53)"
  proof -
    have "pow2 (e - 52) = pow2 (e - 53 + 1)" by simp
    also have "\<dots> = pow2 (e - 53) * pow2 1" by (rule pow2_add)
    finally show ?thesis by (simp add: q_def pow2_def)
  qed
  ultimately have err: "\<bar>v - r\<bar> \<le> pow2 (e - 53)" by simp
  then show "\<bar>of_int (round_half_even (r / pow2 (e - 52))) * pow2 (e - 52) - r\<bar> \<le> pow2 (e - 53)"
    by (simp add: v_def q_def)
  have "pow2 (e - 53) \<le> pow2 (e + 1)" by (rule pow2_mono) simp
  with err assms(5) have "\<bar>v\<bar> < pow2 (e + 1) + pow2 (e + 1)" by linarith
  also have "pow2 (e + 1) + pow2 (e + 1) = pow2 (e + 1) * pow2 1" by (simp add: pow2_def)
  also have "\<dots> = pow2 (e + 1 + 1)" by (simp only: pow2_add)
  also have "pow2 (e + 1 + 1) = pow2 (e + 2)" by (simp add: add.commute)
  also have "\<dots> \<le> pow2 1024" using assms(3) by (intro pow2_mono) simp
  finally have "\<bar>v\<bar> < pow2 1024" .
  then show "binary64 r = Some (of_int (round_half_even (r / pow2 (e - 52))) * pow2 (e - 52))"
    using assms(1,2) by (simp add: binary64_def b Let_def v_def q_def max_def)
qed


text \<open>
  To compute a rounding it is enough to name the binade and an integer significand within
  one half of the scaled value.
\<close>

lemma round_half_even_unique:
  assumes "\<bar>of_int m - r\<bar> < 1 / 2"
  shows "round_half_even r = m"
proof -
  have f: "of_int \<lfloor>r\<rfloor> \<le> r" "r < of_int \<lfloor>r\<rfloor> + 1" by linarith+
  note n = round_half_even_near [of r]
  have "\<bar>(of_int (round_half_even r) :: rat) - of_int m\<bar> < 1"
    using assms n by linarith
  then have "\<bar>(of_int (round_half_even r - m) :: rat)\<bar> < 1" by simp
  then have "\<bar>round_half_even r - m\<bar> < 1"
    by (metis of_int_abs of_int_less_1_iff)
  then show ?thesis by simp
qed

lemma binary64_value:
  assumes "r \<noteq> 0" "- 1022 \<le> e" "e \<le> 1022" "pow2 e \<le> \<bar>r\<bar>" "\<bar>r\<bar> < pow2 (e + 1)"
    and "\<bar>of_int m - r / pow2 (e - 52)\<bar> < 1 / 2"
  shows "binary64 r = Some (of_int m * pow2 (e - 52))"
  using binary64_eval(1) [OF assms(1-5)] round_half_even_unique [OF assms(6)] by simp






subsection \<open>The conversion at the multiples of ten\<close>













lemma spec_mapping_70: "spec_mapping 70 = - 51"
  by (simp add: spec_mapping_def py_int_def)

lemma try_iwconfig_None:
  "try_iwconfig r = None \<longleftrightarrow>
     r = Unavailable \<or> (\<exists>out. r = Stdout out \<and> signal_level out = None \<and> link_quality out = None)"
  by (auto simp: try_iwconfig_def split: run.splits option.splits)

lemma try_airport_None: "try_airport r = None \<longleftrightarrow> r = Unavailable \<or> r = Stdout None"
  by (auto simp: try_airport_def split: run.splits option.splits)

subsection \<open>Percentage readings\<close>



text \<open>
  The agreement with the exact value rests on the divisor 100. With a link quality
  reported out of 70 the roundings can end just above an integer: for 58/70 the exact
  value is -42 and the probe returns -41. A divisor of zero raises.
\<close>

lemma approx_dbm_58_70: "approx_dbm 58 70 = Inr (- 41)"
proof -
  have ratio: "binary64 (of_nat 58 / of_nat 70) = Some (7463107953928251 / 9007199254740992)"
    using binary64_value [of "of_nat 58 / of_nat 70" "- 1" "7463107953928251"]
    by (simp add: pow2_def)
  have scaled: "binary64 ((7463107953928251 / 9007199254740992) * 70) = Some (8162774324609025 / 140737488355328)"
    using binary64_value [of "(7463107953928251 / 9007199254740992) * 70" "5" "8162774324609025"]
    by (simp add: pow2_def)
  have signal: "binary64 (- 100 + (8162774324609025 / 140737488355328)) = Some (- (5910974510923775 / 140737488355328))"
    using binary64_value [of "- 100 + (8162774324609025 / 140737488355328)" "5" "- 5910974510923775"]
    by (simp add: pow2_def)
  show ?thesis
    by (simp add: approx_dbm_def ratio [simplified] scaled [simplified] signal [simplified]
        py_int_def ceiling_eq_iff floor_eq_iff)
qed

lemma exact_58_70: "py_int (- 100 + (58 / 70) * 70) = - 42"
  by (simp add: py_int_def)

lemma link_quality_58_70:
  "get_wifi_signal_strength
       (Stdout \<lparr>signal_level = None, link_quality = Some (58, 70)\<rparr>) airport netsh
     = Inr (Some (- 41))"
  by (simp add: get_wifi_signal_strength_def try_iwconfig_def approx_dbm_58_70)

lemma link_quality_zero_scale:
  "get_wifi_signal_strength
       (Stdout \<lparr>signal_level = None, link_quality = Some (q, 0)\<rparr>) airport netsh
     = Inl ZeroDivisionError"
  by (simp add: get_wifi_signal_strength_def try_iwconfig_def approx_dbm_def)

end
